theory Spec2Isabelle
  imports Complex_Main "HOL-Library.AList"
begin

section \<open>Python strings\<close>

text \<open>
  A Python \<open>str\<close> is a sequence of Unicode code points, and \<open>len\<close> counts code points.
  The source's literals are mostly Chinese, so a string is modelled as the list of its code
  points; ASCII literals are written through \<open>ascii\<close>.
\<close>

type_synonym pystr = "nat list"

definition ascii :: "string \<Rightarrow> pystr" where
  "ascii s = map of_char s"

text \<open>
  \<open>str.isspace\<close> of one code point: the characters that \<open>str.strip()\<close> and
  \<open>str.split()\<close> (both without arguments) treat as whitespace.
\<close>

definition isspace :: "nat \<Rightarrow> bool" where
  "isspace c = (c \<in> set [9, 10, 11, 12, 13, 28, 29, 30, 31, 32, 133, 160, 5760,
      8192, 8193, 8194, 8195, 8196, 8197, 8198, 8199, 8200, 8201, 8202,
      8232, 8233, 8239, 8287, 12288])"

definition strip :: "pystr \<Rightarrow> pystr" where
  "strip s = rev (dropWhile isspace (rev (dropWhile isspace s)))"

text \<open>\<open>s.split()\<close>: the maximal runs of non-whitespace characters, in order.\<close>

fun split_from :: "pystr \<Rightarrow> pystr \<Rightarrow> pystr list" where
  "split_from w [] = (if w = [] then [] else [rev w])"
| "split_from w (c # cs) =
     (if isspace c then (if w = [] then split_from [] cs else rev w # split_from [] cs)
      else split_from (c # w) cs)"

definition split :: "pystr \<Rightarrow> pystr list" where
  "split s = split_from [] s"

text \<open>\<open>s.startswith(p)\<close> and the substring test \<open>k in s\<close>.\<close>

definition startswith :: "pystr \<Rightarrow> pystr \<Rightarrow> bool" where
  "startswith s p = (take (length p) s = p)"

fun py_in :: "pystr \<Rightarrow> pystr \<Rightarrow> bool" where
  "py_in k [] = (k = [])"
| "py_in k (c # cs) = (startswith (c # cs) k \<or> py_in k cs)"

section \<open>Exceptions\<close>

text \<open>
  The messages of the source are Chinese sentences; each is named by a tag here. An
  operation returns its result (or the exception it raised) together with the object as it
  is afterwards, so that a mutation made before a raise would be visible.
\<close>

datatype msg =
    InputEmpty | InputTooLong
  | NameEmpty | NameTooLong
  | PromptEmpty | PromptTooLong
  | KeyBadPrefix | KeyTooShort | KeyHasSpace
  | MergeNonCharacter | DictNotCallable | NotAList
  | NonPositivePoints

datatype exn =
    TypeError msg
  | ValueError msg
  | KeyError string
  | UnboundLocalError string
  | FormatError

section \<open>The character\<close>

text \<open>
  An exchange record is a Python dict with the keys \<open>timestamp\<close>, \<open>user\<close>,
  \<open>assistant\<close> and \<open>model\<close>; it is an association list in insertion order.
\<close>

type_synonym pydict = "(string \<times> pystr) list"

definition dict_get :: "pydict \<Rightarrow> string \<Rightarrow> pystr \<Rightarrow> pystr" where
  "dict_get d k dflt = (case map_of d k of None \<Rightarrow> dflt | Some v \<Rightarrow> v)"

definition dict_getitem :: "pydict \<Rightarrow> string \<Rightarrow> exn + pystr" where
  "dict_getitem d k = (case map_of d k of None \<Rightarrow> Inl (KeyError k) | Some v \<Rightarrow> Inr v)"

text \<open>
  The fields of \<open>AICharacter\<close>: \<open>p_name\<close> is \<open>_name\<close>, \<open>p_system_prompt\<close> is
  \<open>_system_prompt\<close>, \<open>pp_api_key\<close> and \<open>pp_rate_limit\<close> are the name-mangled
  \<open>__api_key\<close> and \<open>__rate_limit\<close>. \<open>created_at\<close> holds the clock reading taken at
  construction.
\<close>

record AICharacter =
  p_name :: pystr
  p_system_prompt :: pystr
  model :: pystr
  conversation_history :: "pydict list"
  created_at :: pystr
  pp_api_key :: "pystr option"
  pp_rate_limit :: int

definition MAX_NAME_LENGTH :: nat where "MAX_NAME_LENGTH = 50"
definition MAX_PROMPT_LENGTH :: nat where "MAX_PROMPT_LENGTH = 1000"
definition MIN_API_KEY_LENGTH :: nat where "MIN_API_KEY_LENGTH = 20"
definition DEFAULT_MODEL :: pystr where "DEFAULT_MODEL = ascii ''gpt-3.5-turbo''"

subsection \<open>Properties and their setters\<close>

definition name :: "'a AICharacter_scheme \<Rightarrow> pystr" where
  "name self = p_name self"

definition name_setter ::
  "'a AICharacter_scheme \<Rightarrow> pystr \<Rightarrow> (exn + unit) \<times> 'a AICharacter_scheme" where
  "name_setter self v =
     (if v = [] \<or> strip v = [] then (Inl (ValueError NameEmpty), self)
      else if length v > 50 then (Inl (ValueError NameTooLong), self)
      else (Inr (), self\<lparr>p_name := strip v\<rparr>))"

definition system_prompt :: "'a AICharacter_scheme \<Rightarrow> pystr" where
  "system_prompt self = p_system_prompt self"

definition system_prompt_setter ::
  "'a AICharacter_scheme \<Rightarrow> pystr \<Rightarrow> (exn + unit) \<times> 'a AICharacter_scheme" where
  "system_prompt_setter self v =
     (if v = [] then (Inl (ValueError PromptEmpty), self)
      else if length v > 1000 then (Inl (ValueError PromptTooLong), self)
      else (Inr (), self\<lparr>p_system_prompt := v\<rparr>))"

text \<open>
  The \<open>api_key\<close> property. The getter shows the first three characters, one \<open>*\<close>
  (code point 42) for each character beyond seven, and the last four characters when the
  key is longer than seven. \<open>'*' * n\<close> is empty for a negative \<open>n\<close> and \<open>k[-4:]\<close> is
  all of \<open>k\<close> when \<open>k\<close> is shorter than four, which is what the truncating subtraction
  of \<open>nat\<close> gives.
\<close>

definition api_key :: "'a AICharacter_scheme \<Rightarrow> pystr option" where
  "api_key self =
     (case pp_api_key self of
        None \<Rightarrow> None
      | Some k \<Rightarrow>
          if k = [] then None
          else
            (let visible_part = take 3 k;
                 hidden_part = replicate (length k - 7) (42::nat);
                 last_part = (if length k > 7 then drop (length k - 4) k else [])
             in Some (visible_part @ hidden_part @ last_part)))"

definition api_key_setter ::
  "'a AICharacter_scheme \<Rightarrow> pystr \<Rightarrow> (exn + unit) \<times> 'a AICharacter_scheme" where
  "api_key_setter self v =
     (if \<not> startswith v (ascii ''sk-'') then (Inl (ValueError KeyBadPrefix), self)
      else if length v < 20 then (Inl (ValueError KeyTooShort), self)
      else if py_in [32] v then (Inl (ValueError KeyHasSpace), self)
      else (Inr (), self\<lparr>pp_api_key := Some v\<rparr>))"

definition api_key_deleter :: "'a AICharacter_scheme \<Rightarrow> 'a AICharacter_scheme" where
  "api_key_deleter self = self\<lparr>pp_api_key := None\<rparr>"

definition rate_limit :: "'a AICharacter_scheme \<Rightarrow> int" where
  "rate_limit self = pp_rate_limit self"

subsection \<open>Construction\<close>

text \<open>
  \<open>__init__\<close> stores the name as given, then assigns the prompt through its validating
  setter (the only statement of the constructor that can raise; the object is dropped when
  it does), then sets the model, an empty history, the clock reading \<open>datetime.now()\<close>,
  no key and the rate limit. The record starts with the fields that the constructor has
  not reached yet at their final values, except the prompt.
\<close>

definition AICharacter_init ::
  "pystr \<Rightarrow> pystr \<Rightarrow> pystr \<Rightarrow> pystr \<Rightarrow> exn + AICharacter" where
  "AICharacter_init clock nm prompt mdl =
     (case system_prompt_setter
             \<lparr>p_name = nm, p_system_prompt = [], model = mdl, conversation_history = [],
              created_at = clock, pp_api_key = None, pp_rate_limit = 1000\<rparr> prompt of
        (Inl x, self) \<Rightarrow> Inl x
      | (Inr u, self) \<Rightarrow> Inr self)"

subsection \<open>The reply engine\<close>

text \<open>
  What \<open>speak\<close> takes from outside the program: the clock (\<open>now\<close> is
  \<open>datetime.now().isoformat()\<close>), the draw of \<open>random.choice\<close> (\<open>choice\<close>, used
  modulo the length of the reply list, so that every element can be drawn), and the
  library's \<open>str.format\<close> on a template that holds a brace (\<open>str_format\<close>, given the
  template and the \<open>name\<close> argument). A template without \<open>{\<close> (123) and \<open>}\<close> (125) has
  no replacement field and no escape, and \<open>format\<close> returns it as it is.
\<close>

record env =
  now :: pystr
  choice :: nat
  str_format :: "pystr \<Rightarrow> pystr \<Rightarrow> exn + pystr"

definition py_format :: "env \<Rightarrow> pystr \<Rightarrow> pystr \<Rightarrow> exn + pystr" where
  "py_format e template nm =
     (if 123 \<in> set template \<or> 125 \<in> set template then str_format e template nm
      else Inr template)"

text \<open>
  The rule table of \<open>speak\<close>, in the insertion order of the dict: the keywords
  \<open>mingzi\<close> (name), \<open>nihao\<close> (hello), \<open>tianqi\<close> (weather), \<open>qiutian\<close> (autumn) and
  \<open>xiexie\<close> (thanks), each with its list of replies. The two replies of the first keyword
  are f-strings around the character's name.
\<close>

definition rule_response :: "pystr \<Rightarrow> (pystr \<times> pystr list) list" where
  "rule_response nm =
     [([21517, 23383],
         [[25105, 21483] @ nm @ [65292, 25105, 26159, 19968, 20010, 65, 73, 21161, 25163],
          [25105, 26159] @ nm @
            [65292, 35831, 38382, 26377, 20160, 20040, 21487, 20197, 24110, 24744]]),
      ([20320, 22909],
         [[20320, 22909, 21568],
          [21992, 65281, 24456, 39640, 20852, 35265, 21040, 20320],
          [20320, 22909, 65292, 35831, 38382, 26377, 20160, 20040, 21487, 20197, 24110,
           24744]]),
      ([22825, 27668],
         [[20170, 22825, 19979, 38632, 65292, 35760, 24471, 24102, 38632, 20254, 21734,
           65281],
          [20170, 22825, 22823, 26228, 22825, 65292, 21487, 20197, 20986, 21435, 25955,
           25955, 27493, 65292, 35760, 24471, 38450, 26194, 21734],
          [20170, 22825, 22825, 27668, 19981, 38169, 21602]]),
      ([31179, 22825],
         [[31179, 22825, 26159, 20016, 25910, 30340, 23395, 33410, 65292, 25105, 21916,
           27426, 31179, 22825],
          [25105, 21916, 27426, 31179, 22825, 30340, 20937, 29245]]),
      ([35874, 35874],
         [[19981, 23458, 27668, 12290],
          [24456, 39640, 20852, 24110, 21040, 24744, 65281],
          [36825, 26159, 25105, 24212, 35813, 20570, 30340, 12290]])]"

text \<open>The first rule whose keyword occurs in the text (the \<open>for\<close> loop with its \<open>break\<close>).\<close>

fun first_rule :: "(pystr \<times> pystr list) list \<Rightarrow> pystr \<Rightarrow> pystr list option" where
  "first_rule [] text = None"
| "first_rule ((keyword, response) # rules) text =
     (if py_in keyword text then Some response else first_rule rules text)"

text \<open>
  The default reply: the name, a fixed sentence, the text, and the rest of the sentence.
\<close>

definition default_response :: "pystr \<Rightarrow> pystr \<Rightarrow> pystr" where
  "default_response nm text =
     nm @ [58, 25105, 26159, 20320, 29241, 65292, 19981, 22826, 26126, 30333] @ text @
       [30340, 24847, 24605, 65292, 20320, 21487, 20197, 38382, 25105, 22825, 27668, 65292,
        21517, 23383, 65292, 25110, 32773, 25171, 25307, 21628, 21734, 12290]"

definition conversation_record :: "pystr \<Rightarrow> pystr \<Rightarrow> pystr \<Rightarrow> pystr \<Rightarrow> pydict" where
  "conversation_record ts text ai_response mdl =
     [(''timestamp'', ts), (''user'', text), (''assistant'', ai_response), (''model'', mdl)]"

text \<open>The body of \<open>speak\<close>, without its decorator.\<close>

definition speak_body ::
  "env \<Rightarrow> 'a AICharacter_scheme \<Rightarrow> pystr \<Rightarrow> (exn + pystr) \<times> 'a AICharacter_scheme" where
  "speak_body e self text =
     (case (case first_rule (rule_response (name self)) text of
              Some response \<Rightarrow>
                py_format e (response ! (choice e mod length response)) (name self)
            | None \<Rightarrow> Inr (default_response (name self) text)) of
        Inl x \<Rightarrow> (Inl x, self)
      | Inr ai_response \<Rightarrow>
          (Inr ai_response,
           self\<lparr>conversation_history :=
                  conversation_history self @
                    [conversation_record (now e) text ai_response (model self)]\<rparr>))"

text \<open>
  The decorator \<open>validate_input\<close>. The text is a \<open>str\<close> by its type here, so the
  \<open>isinstance\<close> test of the wrapper always passes. The wrapper raises \<open>TypeError\<close> in
  every case.
\<close>

definition validate_input ::
  "('s \<Rightarrow> pystr \<Rightarrow> (exn + 'r) \<times> 's) \<Rightarrow> 's \<Rightarrow> pystr \<Rightarrow> (exn + 'r) \<times> 's" where
  "validate_input func self text =
     (if strip text = [] then (Inl (TypeError InputEmpty), self)
      else if length text > 1000 then (Inl (TypeError InputTooLong), self)
      else func self text)"

definition speak ::
  "env \<Rightarrow> 'a AICharacter_scheme \<Rightarrow> pystr \<Rightarrow> (exn + pystr) \<times> 'a AICharacter_scheme" where
  "speak e = validate_input (speak_body e)"

text \<open>\<open>__len__\<close> and \<open>__contains__\<close>.\<close>

definition len :: "'a AICharacter_scheme \<Rightarrow> nat" where
  "len self = length (conversation_history self)"

section \<open>The advanced character\<close>

record AdvancedAICharacter = AICharacter +
  role :: pystr
  token_used :: int
  skills :: "(pystr \<times> int) list"
  p_performance_score :: int

text \<open>
  \<open>__init__\<close> of the subclass: the parent's constructor with its default model, then the
  fields of the subclass and the model.
\<close>

definition AdvancedAICharacter_init ::
  "pystr \<Rightarrow> pystr \<Rightarrow> pystr \<Rightarrow> pystr \<Rightarrow> pystr \<Rightarrow> exn + AdvancedAICharacter" where
  "AdvancedAICharacter_init clock nm prompt mdl rl =
     (case AICharacter_init clock nm prompt DEFAULT_MODEL of
        Inl x \<Rightarrow> Inl x
      | Inr base \<Rightarrow>
          Inr (AICharacter.extend base
                 \<lparr>role = rl, token_used = 0, skills = [], p_performance_score = 100\<rparr>
               \<lparr>model := mdl\<rparr>))"

text \<open>
  The role tags and labels: \<open>tutor\<close> and \<open>reviewer\<close> are the role names; the prefixes
  are the bracketed tags put before the user's text (student question, code review), the
  labels are put before the reply (mentor answer, review opinion followed by a full-width
  colon).
\<close>

definition role_tutor :: pystr where "role_tutor = ascii ''tutor''"
definition role_reviewer :: pystr where "role_reviewer = ascii ''reviewer''"

definition prefix_tutor :: pystr where
  "prefix_tutor = [12304, 23398, 29983, 25552, 38382, 12305]"
definition prefix_reviewer :: pystr where
  "prefix_reviewer = [12304, 20195, 30721, 23457, 26597, 12305]"
definition label_reviewer :: pystr where
  "label_reviewer = [23457, 26597, 24847, 35265, 65306]"
definition label_tutor :: pystr where
  "label_tutor = [23548, 24072, 22238, 31572]"

definition update_token_usage ::
  "'a AdvancedAICharacter_scheme \<Rightarrow> pystr \<Rightarrow> pystr \<Rightarrow> 'a AdvancedAICharacter_scheme" where
  "update_token_usage self input_message output_message =
     (let input_tokens = int (length (split input_message));
          output_tokens = int (length (split output_message))
      in self\<lparr>token_used := token_used self + (input_tokens + output_tokens)\<rparr>)"

definition format_response_by_role ::
  "'a AdvancedAICharacter_scheme \<Rightarrow> pystr \<Rightarrow> pystr" where
  "format_response_by_role self response =
     (if role self = role_reviewer then label_reviewer @ response
      else if role self = role_tutor then label_tutor @ response
      else response)"

text \<open>
  The overriding \<open>speak\<close>. The parent's \<open>speak\<close> is called with its decorator, on the
  prefixed text. The last record is the dict that the parent has just appended;
  assigning its \<open>assistant\<close> key changes that element of the list.
\<close>

definition set_last_assistant :: "pydict list \<Rightarrow> pystr \<Rightarrow> pydict list" where
  "set_last_assistant h v = butlast h @ [AList.update ''assistant'' v (last h)]"

definition advanced_speak ::
  "env \<Rightarrow> 'a AdvancedAICharacter_scheme \<Rightarrow> pystr \<Rightarrow>
     (exn + pystr) \<times> 'a AdvancedAICharacter_scheme" where
  "advanced_speak e self text =
     (let prefixed_text =
            (if role self = role_tutor then prefix_tutor @ text
             else if role self = role_reviewer then prefix_reviewer @ text
             else text)
      in case speak e self prefixed_text of
           (Inl x, self1) \<Rightarrow> (Inl x, self1)
         | (Inr response, self1) \<Rightarrow>
             (let self2 = update_token_usage self1 prefixed_text response;
                  formatted_response = format_response_by_role self2 response
              in if conversation_history self2 \<noteq> []
                 then (Inr formatted_response,
                       self2\<lparr>conversation_history :=
                                set_last_assistant (conversation_history self2)
                                  formatted_response\<rparr>)
                 else (Inr formatted_response, self2)))"

definition add_skill ::
  "'a AdvancedAICharacter_scheme \<Rightarrow> pystr \<Rightarrow> int \<Rightarrow> 'a AdvancedAICharacter_scheme" where
  "add_skill self skill level = self\<lparr>skills := skills self @ [(skill, level)]\<rparr>"

definition improve_performance ::
  "'a AdvancedAICharacter_scheme \<Rightarrow> int \<Rightarrow> (exn + unit) \<times> 'a AdvancedAICharacter_scheme" where
  "improve_performance self point =
     (if point \<le> 0 then (Inl (ValueError NonPositivePoints), self)
      else (Inr (), self\<lparr>p_performance_score := p_performance_score self + point\<rparr>))"

section \<open>Merging two characters\<close>

text \<open>
  The operand of \<open>__add__\<close> can be any Python value. A character is an instance of
  \<open>AICharacter\<close> or of its subclass; \<open>isinstance(other, AICharacter)\<close> holds for both.
\<close>

datatype character = Base AICharacter | Advanced AdvancedAICharacter

datatype pyval = Character character | PyStr pystr | PyInt int | PyNone

definition character_name :: "character \<Rightarrow> pystr" where
  "character_name ch = (case ch of Base c \<Rightarrow> name c | Advanced c \<Rightarrow> name c)"

definition character_history :: "character \<Rightarrow> pydict list" where
  "character_history ch =
     (case ch of Base c \<Rightarrow> conversation_history c | Advanced c \<Rightarrow> conversation_history c)"

definition isinstance_AICharacter :: "pyval \<Rightarrow> bool" where
  "isinstance_AICharacter v = (case v of Character ch \<Rightarrow> True | _ \<Rightarrow> False)"

text \<open>
  \<open>__add__\<close>: a new base character, built by the constructor with the two names around
  \<open>&\<close> (38), the prompt \<open>merged Character\<close> and the default model, whose history is then
  set to the concatenation of the two histories.
\<close>

definition AICharacter_add ::
  "pystr \<Rightarrow> 'a AICharacter_scheme \<Rightarrow> pyval \<Rightarrow> exn + AICharacter" where
  "AICharacter_add clock self other =
     (case other of
        Character oc \<Rightarrow>
          (case AICharacter_init clock (name self @ [38] @ character_name oc)
                  (ascii ''merged Character'') DEFAULT_MODEL of
             Inl x \<Rightarrow> Inl x
           | Inr merged \<Rightarrow>
               Inr (merged\<lparr>conversation_history :=
                              conversation_history self @ character_history oc\<rparr>))
      | _ \<Rightarrow> Inl (TypeError MergeNonCharacter))"

subsection \<open>The same operation on a store of objects\<close>

text \<open>
  Whether the merged history is a list of its own is a question about object identity, so
  \<open>__add__\<close> is modelled a second time on a store: characters, lists and dicts are
  objects at addresses, a character holds the address of its history list, and a list
  holds the addresses of its records. An address is an index into the store; a new object
  is put at the end.
\<close>

type_synonym ref = nat

record advanced_part =
  a_role :: pystr
  a_token_used :: int
  a_skills :: "(pystr \<times> int) list"
  a_performance_score :: int

record hcharacter =
  h_name :: pystr
  h_system_prompt :: pystr
  h_model :: pystr
  h_history :: ref
  h_created_at :: pystr
  h_api_key :: "pystr option"
  h_rate_limit :: int
  h_advanced :: "advanced_part option"

datatype hobject =
    HCharacter hcharacter
  | HList "ref list"
  | HDict pydict
  | HOther

type_synonym heap = "hobject list"

definition lookup :: "heap \<Rightarrow> ref \<Rightarrow> hobject option" where
  "lookup h r = (if r < length h then Some (h ! r) else None)"

definition alloc :: "heap \<Rightarrow> hobject \<Rightarrow> ref \<times> heap" where
  "alloc h obj = (length h, h @ [obj])"

definition store :: "heap \<Rightarrow> ref \<Rightarrow> hobject \<Rightarrow> heap" where
  "store h r obj = (if r < length h then h[r := obj] else h)"

text \<open>The constructor on the store: a new empty list and a new character object.\<close>

definition heap_init ::
  "heap \<Rightarrow> pystr \<Rightarrow> pystr \<Rightarrow> pystr \<Rightarrow> pystr \<Rightarrow> (exn + ref) \<times> heap" where
  "heap_init h clock nm prompt mdl =
     (if prompt = [] then (Inl (ValueError PromptEmpty), h)
      else if length prompt > 1000 then (Inl (ValueError PromptTooLong), h)
      else
        (case alloc h (HList []) of
           (rl, h1) \<Rightarrow>
             (case alloc h1
                     (HCharacter
                        \<lparr>h_name = nm, h_system_prompt = prompt, h_model = mdl,
                         h_history = rl, h_created_at = clock, h_api_key = None,
                         h_rate_limit = 1000, h_advanced = None\<rparr>) of
                (rc, h2) \<Rightarrow> (Inr rc, h2))))"

text \<open>
  \<open>__add__\<close> on the store. \<open>self.conversation_history + other.conversation_history\<close>
  builds a new list object that holds the addresses of the same record dicts; the
  assignment stores its address in the merged character. A history address that is not
  a list does not occur in a store the program has built; the model raises there.
\<close>

definition heap_add :: "heap \<Rightarrow> pystr \<Rightarrow> ref \<Rightarrow> ref \<Rightarrow> (exn + ref) \<times> heap" where
  "heap_add h clock rself rother =
     (case (lookup h rself, lookup h rother) of
        (Some (HCharacter a), Some (HCharacter b)) \<Rightarrow>
          (case heap_init h clock (h_name a @ [38] @ h_name b) (ascii ''merged Character'')
                  DEFAULT_MODEL of
             (Inl x, h1) \<Rightarrow> (Inl x, h1)
           | (Inr rm, h1) \<Rightarrow>
               (case (lookup h1 (h_history a), lookup h1 (h_history b), lookup h1 rm) of
                  (Some (HList la), Some (HList lb), Some (HCharacter m)) \<Rightarrow>
                    (case alloc h1 (HList (la @ lb)) of
                       (rl, h2) \<Rightarrow>
                         (Inr rm, store h2 rm (HCharacter (m\<lparr>h_history := rl\<rparr>))))
                | _ \<Rightarrow> (Inl (TypeError NotAList), h1)))
      | _ \<Rightarrow> (Inl (TypeError MergeNonCharacter), h))"

text \<open>What a character object of the store stands for: its fields and its records.\<close>

definition records_at :: "heap \<Rightarrow> ref list \<Rightarrow> pydict list" where
  "records_at h rs =
     map (\<lambda>r. case lookup h r of Some (HDict d) \<Rightarrow> d | _ \<Rightarrow> []) rs"

definition history_at :: "heap \<Rightarrow> ref \<Rightarrow> pydict list" where
  "history_at h r = (case lookup h r of Some (HList rs) \<Rightarrow> records_at h rs | _ \<Rightarrow> [])"

definition base_of :: "heap \<Rightarrow> hcharacter \<Rightarrow> AICharacter" where
  "base_of h c =
     \<lparr>p_name = h_name c, p_system_prompt = h_system_prompt c, model = h_model c,
      conversation_history = history_at h (h_history c), created_at = h_created_at c,
      pp_api_key = h_api_key c, pp_rate_limit = h_rate_limit c\<rparr>"

section \<open>The batch processor\<close>

text \<open>A call of \<open>speak\<close> on a list element runs the method of the element's class.\<close>

definition character_speak ::
  "env \<Rightarrow> character \<Rightarrow> pystr \<Rightarrow> (exn + pystr) \<times> character" where
  "character_speak e ch text =
     (case ch of
        Base c \<Rightarrow> (case speak e c text of (r, c') \<Rightarrow> (r, Base c'))
      | Advanced c \<Rightarrow> (case advanced_speak e c text of (r, c') \<Rightarrow> (r, Advanced c')))"

text \<open>
  \<open>batch_converse\<close>. The dict \<open>results\<close> maps a name to its \<open>response\<close> and its
  \<open>success\<close> flag. \<open>response\<close> is a local variable of the function: it is unbound until
  the first \<open>speak\<close> that returns, and afterwards holds the reply of the last \<open>speak\<close>
  that returned. The handler reads it; reading it unbound raises \<open>UnboundLocalError\<close>
  inside the handler, which ends the function. The loop takes the environment of the
  \<open>i\<close>-th call from \<open>es\<close>, and returns the characters as they are afterwards.
\<close>

type_synonym batch_results = "(pystr \<times> (pystr \<times> bool)) list"

fun batch_loop ::
  "(nat \<Rightarrow> env) \<Rightarrow> nat \<Rightarrow> pystr \<Rightarrow> pystr option \<Rightarrow> batch_results \<Rightarrow> character list \<Rightarrow>
     character list \<Rightarrow> (exn + batch_results) \<times> character list" where
  "batch_loop es i message response results seen [] = (Inr results, seen)"
| "batch_loop es i message response results seen (char # rest) =
     (case character_speak (es i) char message of
        (Inr r, char') \<Rightarrow>
          batch_loop es (Suc i) message (Some r)
            (AList.update (character_name char') (r, True) results) (seen @ [char']) rest
      | (Inl x, char') \<Rightarrow>
          (case response of
             None \<Rightarrow> (Inl (UnboundLocalError ''response''), seen @ char' # rest)
           | Some r0 \<Rightarrow>
               batch_loop es (Suc i) message (Some r0)
                 (AList.update (character_name char') (r0, False) results) (seen @ [char'])
                 rest))"

definition batch_converse ::
  "(nat \<Rightarrow> env) \<Rightarrow> character list \<Rightarrow> pystr \<Rightarrow> (exn + batch_results) \<times> character list" where
  "batch_converse es characters message = batch_loop es 0 message None [] [] characters"

section \<open>The conversation analyzer\<close>

text \<open>
  \<open>get_conversation_stats\<close>. The calendar is taken from outside: \<open>today\<close> is
  \<open>datetime.now().date()\<close> and \<open>date_of\<close> is \<open>datetime.fromisoformat(s).date()\<close>, with
  \<open>None\<close> where \<open>fromisoformat\<close> raises \<open>ValueError\<close>. The two averages are floats in
  the source, \<open>round(total / n, 2)\<close>; they are exact rationals here, rounded to two
  decimals half to even.
\<close>

definition replace_Z :: "pystr \<Rightarrow> pystr" where
  "replace_Z s = concat (map (\<lambda>c. if c = 90 then ascii ''+00:00'' else [c]) s)"

definition is_today :: "(pystr \<Rightarrow> nat option) \<Rightarrow> nat \<Rightarrow> pydict \<Rightarrow> bool" where
  "is_today date_of today conv =
     (case dict_getitem conv ''timestamp'' of
        Inl x \<Rightarrow> False
      | Inr ts \<Rightarrow> (case date_of (replace_Z ts) of None \<Rightarrow> False | Some d \<Rightarrow> d = today))"

definition round_half_even :: "rat \<Rightarrow> int" where
  "round_half_even x =
     (let f = floor x; d = x - of_int f
      in if d < 1 / 2 then f else if 1 / 2 < d then f + 1 else if even f then f else f + 1)"

definition py_round2 :: "rat \<Rightarrow> rat" where
  "py_round2 x = of_int (round_half_even (x * 100)) / 100"

record conversation_stats =
  total_conversation :: nat
  today_conversation :: nat
  avg_user_words :: rat
  avg_assistant_words :: rat
  first_conversation :: "pystr option"
  last_conversation :: "pystr option"

datatype stats_result = NoRecords | Stats conversation_stats

definition total_user_words :: "pydict list \<Rightarrow> nat" where
  "total_user_words h = sum_list (map (\<lambda>conv. length (split (dict_get conv ''users'' []))) h)"

definition total_assistant_words :: "pydict list \<Rightarrow> nat" where
  "total_assistant_words h =
     sum_list (map (\<lambda>conv. length (split (dict_get conv ''assistant'' []))) h)"

definition get_conversation_stats ::
  "(pystr \<Rightarrow> nat option) \<Rightarrow> nat \<Rightarrow> 'a AICharacter_scheme \<Rightarrow> stats_result" where
  "get_conversation_stats date_of today ch =
     (let h = conversation_history ch
      in if h = [] then NoRecords
         else
           (let total = length h;
                today_list = filter (is_today date_of today) h
            in Stats
                 \<lparr>total_conversation = total,
                  today_conversation = length today_list,
                  avg_user_words =
                    (if total > 0 then py_round2 (of_nat (total_user_words h) / of_nat total)
                     else 0),
                  avg_assistant_words =
                    (if total > 0
                     then py_round2 (of_nat (total_assistant_words h) / of_nat total)
                     else 0),
                  first_conversation = map_of (hd h) ''timestamp'',
                  last_conversation = map_of (last h) ''timestamp''\<rparr>))"

text \<open>
  \<open>export_conversations\<close>. The loop body starts with \<open>conv('timestamp')\<close>, a call of
  the dict, which raises \<open>TypeError\<close> (a dict is not callable). \<open>fromisoformat\<close> is the
  library's parser, giving a point in time or the exception it raises. A bound is used
  when it is given and not the empty string.
\<close>

definition dict_call :: "pydict \<Rightarrow> string \<Rightarrow> exn + pystr" where
  "dict_call d arg = Inl (TypeError DictNotCallable)"

definition before_start :: "(pystr \<Rightarrow> exn + int) \<Rightarrow> pystr option \<Rightarrow> int \<Rightarrow> exn + bool" where
  "before_start fromisoformat start_date conv_time =
     (case start_date of
        None \<Rightarrow> Inr False
      | Some s \<Rightarrow>
          if s = [] then Inr False
          else (case fromisoformat s of Inl x \<Rightarrow> Inl x | Inr t \<Rightarrow> Inr (conv_time < t)))"

definition after_end :: "(pystr \<Rightarrow> exn + int) \<Rightarrow> pystr option \<Rightarrow> int \<Rightarrow> exn + bool" where
  "after_end fromisoformat end_date conv_time =
     (case end_date of
        None \<Rightarrow> Inr False
      | Some s \<Rightarrow>
          if s = [] then Inr False
          else (case fromisoformat s of Inl x \<Rightarrow> Inl x | Inr t \<Rightarrow> Inr (t < conv_time)))"

fun export_loop ::
  "(pystr \<Rightarrow> exn + int) \<Rightarrow> pystr option \<Rightarrow> pystr option \<Rightarrow> pydict list \<Rightarrow> pydict list \<Rightarrow>
     exn + pydict list" where
  "export_loop fromisoformat start_date end_date filtered [] = Inr filtered"
| "export_loop fromisoformat start_date end_date filtered (conv # rest) =
     (case dict_call conv ''timestamp'' of
        Inl x \<Rightarrow> Inl x
      | Inr ts \<Rightarrow>
          (case fromisoformat ts of
             Inl x \<Rightarrow> Inl x
           | Inr conv_time \<Rightarrow>
               (case before_start fromisoformat start_date conv_time of
                  Inl x \<Rightarrow> Inl x
                | Inr True \<Rightarrow> export_loop fromisoformat start_date end_date filtered rest
                | Inr False \<Rightarrow>
                    (case after_end fromisoformat end_date conv_time of
                       Inl x \<Rightarrow> Inl x
                     | Inr True \<Rightarrow>
                         export_loop fromisoformat start_date end_date filtered rest
                     | Inr False \<Rightarrow>
                         export_loop fromisoformat start_date end_date (filtered @ [conv])
                           rest))))"

definition export_conversations ::
  "(pystr \<Rightarrow> exn + int) \<Rightarrow> 'a AICharacter_scheme \<Rightarrow> pystr option \<Rightarrow> pystr option \<Rightarrow>
     exn + pydict list" where
  "export_conversations fromisoformat ch start_date end_date =
     (if conversation_history ch = [] then Inr []
      else export_loop fromisoformat start_date end_date [] (conversation_history ch))"

section \<open>Example objects\<close>

definition example_env :: env where
  "example_env =
     \<lparr>now = ascii ''2024-01-01T00:00:00'', choice = 0,
      str_format = (\<lambda>template nm. Inl FormatError)\<rparr>"

definition example_character :: AICharacter where
  "example_character =
     \<lparr>p_name = ascii ''A'', p_system_prompt = ascii ''p'', model = DEFAULT_MODEL,
      conversation_history = [], created_at = ascii ''2024-01-01T00:00:00'',
      pp_api_key = None, pp_rate_limit = 1000\<rparr>"

definition example_key :: pystr where
  "example_key = ascii ''sk-1234567890abcdefghijklmn''"

definition example_reviewer :: AdvancedAICharacter where
  "example_reviewer =
     \<lparr>p_name = ascii ''R'', p_system_prompt = ascii ''p'', model = ascii ''gpt-4'',
      conversation_history = [], created_at = ascii ''2024-01-01T00:00:00'',
      pp_api_key = None, pp_rate_limit = 1000,
      role = role_reviewer, token_used = 0, skills = [], p_performance_score = 100\<rparr>"

definition example_record_1 :: pydict where
  "example_record_1 =
     conversation_record (ascii ''2024-01-01T10:00:00'') (ascii ''hello world'')
       (ascii ''hi there friend'') DEFAULT_MODEL"

definition example_record_2 :: pydict where
  "example_record_2 =
     conversation_record (ascii ''2024-01-02T11:30:00'') (ascii ''thanks'') (ascii ''bye'')
       DEFAULT_MODEL"

definition example_a :: AICharacter where
  "example_a = example_character\<lparr>conversation_history := [example_record_1]\<rparr>"

definition example_b :: AICharacter where
  "example_b =
     example_character
       \<lparr>p_name := ascii ''B'', conversation_history := [example_record_2, example_record_1]\<rparr>"

text \<open>
  A store with two characters: \<open>A\<close> at address 2 with its history list at 1 and one
  record at 0, \<open>B\<close> at address 5 with its history list at 4 and one record at 3.
\<close>

definition example_ha :: hcharacter where
  "example_ha =
     \<lparr>h_name = ascii ''A'', h_system_prompt = ascii ''p'', h_model = DEFAULT_MODEL,
      h_history = 1, h_created_at = [], h_api_key = None, h_rate_limit = 1000,
      h_advanced = None\<rparr>"

definition example_hb :: hcharacter where
  "example_hb =
     \<lparr>h_name = ascii ''B'', h_system_prompt = ascii ''p'', h_model = DEFAULT_MODEL,
      h_history = 4, h_created_at = [], h_api_key = None, h_rate_limit = 1000,
      h_advanced = None\<rparr>"

definition example_heap :: heap where
  "example_heap =
     [HDict example_record_1, HList [0], HCharacter example_ha,
      HDict example_record_2, HList [3], HCharacter example_hb]"

section \<open>Facts about strings\<close>

lemma strip_empty_iff: "strip s = [] \<longleftrightarrow> (\<forall>c \<in> set s. isspace c)"
proof
  assume "strip s = []"
  then have spaces: "\<forall>c \<in> set (dropWhile isspace s). isspace c"
    by (simp add: strip_def)
  have "dropWhile isspace s = []"
  proof (rule ccontr)
    assume ne: "dropWhile isspace s \<noteq> []"
    then have "\<not> isspace (hd (dropWhile isspace s))"
      by (rule hd_dropWhile)
    moreover have "hd (dropWhile isspace s) \<in> set (dropWhile isspace s)"
      using ne by simp
    ultimately show False using spaces by blast
  qed
  then show "\<forall>c \<in> set s. isspace c"
    by simp
next
  assume "\<forall>c \<in> set s. isspace c"
  then have e: "dropWhile isspace s = []"
    by simp
  show "strip s = []"
    unfolding strip_def e by simp
qed

lemma length_strip_le: "length (strip s) \<le> length s"
proof -
  have "length (strip s) = length (dropWhile isspace (rev (dropWhile isspace s)))"
    by (simp add: strip_def)
  also have "\<dots> \<le> length (rev (dropWhile isspace s))"
    by (rule length_dropWhile_le)
  also have "\<dots> \<le> length s"
    by (simp add: length_dropWhile_le)
  finally show ?thesis .
qed

lemma strip_no_leading_space: "strip s \<noteq> [] \<Longrightarrow> \<not> isspace (hd (strip s))"
proof -
  assume ne: "strip s \<noteq> []"
  let ?t = "dropWhile isspace s"
  have t_ne: "?t \<noteq> []"
  proof
    assume e: "?t = []"
    have "strip s = []" unfolding strip_def e by simp
    then show False using ne by simp
  qed
  have hd_t: "\<not> isspace (hd ?t)"
    using t_ne by (rule hd_dropWhile)
  obtain x xs where t: "?t = x # xs"
    using t_ne by (cases ?t) auto
  have x: "\<not> isspace x" using hd_t t by simp
  have "rev ?t = rev xs @ [x]" using t by simp
  then have "dropWhile isspace (rev ?t) = dropWhile isspace (rev xs) @ [x]"
    using x by (simp add: dropWhile_append3)
  then have "strip s = x # rev (dropWhile isspace (rev xs))"
    by (simp add: strip_def)
  then show ?thesis using x by simp
qed

lemma strip_no_trailing_space: "strip s \<noteq> [] \<Longrightarrow> \<not> isspace (last (strip s))"
proof -
  assume ne: "strip s \<noteq> []"
  let ?u = "dropWhile isspace (rev (dropWhile isspace s))"
  have u_ne: "?u \<noteq> []"
    using ne by (simp add: strip_def)
  have "\<not> isspace (hd ?u)"
    using u_ne by (rule hd_dropWhile)
  moreover have "last (strip s) = hd ?u"
    using u_ne by (simp add: strip_def last_rev)
  ultimately show ?thesis by simp
qed

lemma py_in_single: "py_in [c] s \<longleftrightarrow> c \<in> set s"
  by (induction s) (auto simp: startswith_def)

lemma take3_prefix: "startswith v (ascii ''sk-'') \<Longrightarrow> take 3 v = ascii ''sk-''"
  by (simp add: startswith_def ascii_def numeral_3_eq_3)

section \<open>Input validation of speak\<close>

text \<open>
  C1. When every character of the text is whitespace (the empty text included), \<open>speak\<close>
  of the base character raises the empty-input error of its validating decorator and
  leaves the character as it was: no record is appended and the length of the history is
  the length before the call. The decorator raises the error as a Python \<open>TypeError\<close>.
\<close>

theorem speak_blank_input_fails:
  "\<forall>c \<in> set text. isspace c \<Longrightarrow>
     speak e self text = (Inl (TypeError InputEmpty), self) \<and>
     conversation_history (snd (speak e self text)) = conversation_history self \<and>
     len (snd (speak e self text)) = len self"
proof -
  assume "\<forall>c \<in> set text. isspace c"
  then have "strip text = []" by (simp add: strip_empty_iff)
  then show ?thesis by (simp add: speak_def validate_input_def)
qed

theorem speak_blank_input_fails_witness:
  "speak example_env example_character [] = (Inl (TypeError InputEmpty), example_character) \<and>
   speak example_env example_character [32] = (Inl (TypeError InputEmpty), example_character) \<and>
   len (snd (speak example_env example_character [32, 9, 12288])) = 0"
  using speak_blank_input_fails [of "[]" example_env example_character]
    speak_blank_input_fails [of "[32]" example_env example_character]
    speak_blank_input_fails [of "[32, 9, 12288]" example_env example_character]
  by (simp add: isspace_def len_def example_character_def)

section \<open>The name setter\<close>

text \<open>
  C2, as the code has it. The setter tests the length of the value as given, before
  stripping. When the stripped value is not empty and the given value has at most 50
  characters, the setter succeeds and stores the stripped value, which then has 1 to 50
  characters and no whitespace at either end. When the value is empty or all whitespace,
  or has more than 50 characters as given, the setter raises \<open>ValueError\<close> and the
  character, its name included, is unchanged. A value whose stripped form is longer than
  50 is longer than 50 as given, so it is refused as well.
\<close>

theorem name_setter_raw_length:
  "(strip v \<noteq> [] \<and> length v \<le> 50 \<longrightarrow>
      name_setter self v = (Inr (), self\<lparr>p_name := strip v\<rparr>) \<and>
      name (snd (name_setter self v)) = strip v \<and>
      1 \<le> length (strip v) \<and> length (strip v) \<le> 50 \<and>
      \<not> isspace (hd (strip v)) \<and> \<not> isspace (last (strip v))) \<and>
   (strip v = [] \<or> length v > 50 \<longrightarrow>
      (\<exists>m. fst (name_setter self v) = Inl (ValueError m)) \<and>
      snd (name_setter self v) = self \<and> name (snd (name_setter self v)) = name self) \<and>
   (length (strip v) > 50 \<longrightarrow> length v > 50)"
proof (intro conjI impI)
  assume a: "strip v \<noteq> [] \<and> length v \<le> 50"
  then have "v \<noteq> []" by (auto simp: strip_def)
  with a show "name_setter self v = (Inr (), self\<lparr>p_name := strip v\<rparr>)"
    by (simp add: name_setter_def)
  then show "name (snd (name_setter self v)) = strip v" by (simp add: name_def)
  from a show "1 \<le> length (strip v)" by (cases "strip v") auto
  from a length_strip_le [of v] show "length (strip v) \<le> 50" by simp
  from a show "\<not> isspace (hd (strip v))" by (simp add: strip_no_leading_space)
  from a show "\<not> isspace (last (strip v))" by (simp add: strip_no_trailing_space)
next
  assume b: "strip v = [] \<or> length v > 50"
  then show "\<exists>m. fst (name_setter self v) = Inl (ValueError m)"
    by (auto simp: name_setter_def)
  from b show s: "snd (name_setter self v) = self"
    by (auto simp: name_setter_def)
  then show "name (snd (name_setter self v)) = name self" by simp
next
  assume "length (strip v) > 50"
  with length_strip_le [of v] show "length v > 50" by simp
qed

theorem name_setter_raw_length_witness:
  "name_setter example_character [32, 66, 111, 98, 32] =
     (Inr (), example_character\<lparr>p_name := [66, 111, 98]\<rparr>) \<and>
   fst (name_setter example_character [32, 32]) = Inl (ValueError NameEmpty) \<and>
   snd (name_setter example_character [32, 32]) = example_character \<and>
   snd (name_setter example_character (replicate 51 97)) = example_character"
proof -
  have s1: "strip [32, 66, 111, 98, 32] = [66, 111, 98]"
    by (simp add: strip_def isspace_def)
  have s2: "strip [32, 32] = []"
    by (simp add: strip_def isspace_def)
  show ?thesis
    using name_setter_raw_length [of "[32, 66, 111, 98, 32]" example_character]
      name_setter_raw_length [of "[32, 32]" example_character]
      name_setter_raw_length [of "replicate 51 97" example_character]
    by (simp add: s1 s2 name_setter_def)
qed

text \<open>
  The claim as stated fails for a space followed by fifty letters \<open>a\<close>: the stripped form
  has 50 characters, and the setter raises.
\<close>

lemma strip_space_then_letters: "strip (32 # replicate 50 97) = replicate 50 97"
  by (simp add: strip_def isspace_def)

theorem name_setter_counterexample:
  "length (strip (32 # replicate 50 97)) = 50 \<and>
   name_setter example_character (32 # replicate 50 97) =
     (Inl (ValueError NameTooLong), example_character)"
  by (simp add: strip_space_then_letters name_setter_def)

section \<open>The credential\<close>

text \<open>
  C8. For a value that starts with \<open>sk-\<close>, has at least 20 characters and holds no
  space, the setter succeeds and stores the value; reading \<open>api_key\<close> afterwards gives
  the first 3 characters, then \<open>*\<close> repeated (length - 7) times, then the last 4
  characters. The getter computes this from the stored value at each read; the result has
  the length of the value.
\<close>

theorem api_key_masked_read:
  "startswith v (ascii ''sk-'') \<Longrightarrow> 20 \<le> length v \<Longrightarrow> 32 \<notin> set v \<Longrightarrow>
     api_key_setter self v = (Inr (), self\<lparr>pp_api_key := Some v\<rparr>) \<and>
     api_key (snd (api_key_setter self v)) =
       Some (take 3 v @ replicate (length v - 7) 42 @ drop (length v - 4) v) \<and>
     length (take 3 v) = 3 \<and> length (drop (length v - 4) v) = 4 \<and>
     (\<exists>masked. api_key (snd (api_key_setter self v)) = Some masked \<and>
        length masked = length v)"
proof -
  assume p: "startswith v (ascii ''sk-'')" and l: "20 \<le> length v" and sp: "32 \<notin> set v"
  have ne: "v \<noteq> []" using l by auto
  have set: "api_key_setter self v = (Inr (), self\<lparr>pp_api_key := Some v\<rparr>)"
    using p l sp by (simp add: api_key_setter_def py_in_single)
  have get: "api_key (self\<lparr>pp_api_key := Some v\<rparr>) =
      Some (take 3 v @ replicate (length v - 7) 42 @ drop (length v - 4) v)"
    using ne l by (simp add: api_key_def Let_def)
  show ?thesis
    using l by (simp add: set get)
qed

theorem api_key_masked_read_witness:
  "api_key (snd (api_key_setter example_character example_key)) =
     Some (ascii ''sk-********************klmn'')"
proof -
  have a: "startswith example_key (ascii ''sk-'')"
    by (simp add: example_key_def ascii_def startswith_def)
  have b: "20 \<le> length example_key"
    by (simp add: example_key_def ascii_def)
  have c: "32 \<notin> set example_key"
    by (simp add: example_key_def ascii_def)
  have "api_key (snd (api_key_setter example_character example_key)) =
      Some (take 3 example_key @ replicate (length example_key - 7) 42 @
        drop (length example_key - 4) example_key)"
    using api_key_masked_read [OF a b c, of example_character] by blast
  then show ?thesis
    by (simp add: example_key_def ascii_def)
qed

section \<open>Construction\<close>

text \<open>
  C10. The constructor does not validate the name. Given a prompt that its setter accepts
  (not empty, at most 1000 characters), construction succeeds for every name, and the name
  reads back as the string given, not stripped.
\<close>

theorem init_keeps_name:
  "prompt \<noteq> [] \<Longrightarrow> length prompt \<le> 1000 \<Longrightarrow>
     (\<exists>c. AICharacter_init clock nm prompt mdl = Inr c \<and> name c = nm \<and>
          system_prompt c = prompt \<and> conversation_history c = [])"
  by (simp add: AICharacter_init_def system_prompt_setter_def name_def system_prompt_def)

theorem init_keeps_name_witness:
  "(\<exists>c. AICharacter_init [] [] (ascii ''p'') DEFAULT_MODEL = Inr c \<and> name c = []) \<and>
   (\<exists>c. AICharacter_init [] [32, 32] (ascii ''p'') DEFAULT_MODEL = Inr c \<and>
        name c = [32, 32]) \<and>
   (\<exists>c. AICharacter_init [] (32 # replicate 60 97) (ascii ''p'') DEFAULT_MODEL = Inr c \<and>
        name c = 32 # replicate 60 97)"
proof -
  have a: "ascii ''p'' \<noteq> []" by (simp add: ascii_def)
  have b: "length (ascii ''p'') \<le> 1000" by (simp add: ascii_def)
  show ?thesis
    using init_keeps_name [OF a b, of "[]" "[]" DEFAULT_MODEL]
      init_keeps_name [OF a b, of "[]" "[32, 32]" DEFAULT_MODEL]
      init_keeps_name [OF a b, of "[]" "32 # replicate 60 97" DEFAULT_MODEL]
    by blast
qed

section \<open>The reviewer's speak\<close>

lemma split_from_pending: "w \<noteq> [] \<Longrightarrow> split_from w s \<noteq> []"
  by (induction s arbitrary: w) auto

lemma split_nonspace_head: "\<not> isspace c \<Longrightarrow> 1 \<le> length (split (c # cs))"
proof -
  assume "\<not> isspace c"
  then have "split (c # cs) = split_from [c] cs" by (simp add: split_def)
  moreover have "split_from [c] cs \<noteq> []" by (rule split_from_pending) simp
  ultimately have "split (c # cs) \<noteq> []" by simp
  then show ?thesis by (cases "split (c # cs)") simp_all
qed

lemma speak_body_result:
  "speak_body e self t = (Inr raw, self1) \<Longrightarrow>
     self1 = self\<lparr>conversation_history :=
       conversation_history self @ [conversation_record (now e) t raw (model self)]\<rparr>"
  by (auto simp: speak_body_def split: sum.splits option.splits)

lemma speak_result:
  "speak e self t = (Inr raw, self1) \<Longrightarrow>
     self1 = self\<lparr>conversation_history :=
       conversation_history self @ [conversation_record (now e) t raw (model self)]\<rparr>"
  by (auto simp: speak_def validate_input_def speak_body_result split: if_splits)

lemma speak_error_unchanged: "speak e self t = (Inl x, self1) \<Longrightarrow> self1 = self"
  by (auto simp: speak_def validate_input_def speak_body_def split: if_splits sum.splits option.splits)

lemma set_last_assistant_record:
  "set_last_assistant (h @ [conversation_record ts u a m]) v = h @ [conversation_record ts u v m]"
  by (simp add: set_last_assistant_def conversation_record_def)

lemma reviewer_speak_unfold:
  assumes r: "role self = role_reviewer"
    and s: "speak e self (prefix_reviewer @ text) = (Inr raw, self1)"
  shows "advanced_speak e self text =
    (Inr (label_reviewer @ raw),
     self\<lparr>conversation_history := conversation_history self @
              [conversation_record (now e) (prefix_reviewer @ text) (label_reviewer @ raw) (model self)],
          token_used := token_used self +
              (int (length (split (prefix_reviewer @ text))) + int (length (split raw)))\<rparr>)"
proof -
  have ne: "role_reviewer \<noteq> role_tutor"
    by (simp add: role_reviewer_def role_tutor_def ascii_def)
  note s1 = speak_result [OF s]
  show ?thesis
    using r ne s
    by (simp add: advanced_speak_def Let_def s1 update_token_usage_def
        format_response_by_role_def set_last_assistant_record)
qed

text \<open>
  C3. For a character whose role is \<open>reviewer\<close>, a call of \<open>speak\<close> that returns a
  reply has called the parent's \<open>speak\<close> on the prefixed text with a raw reply
  \<open>raw\<close>, and: the reply is the review label followed by \<open>raw\<close>; the history is the
  old history followed by exactly one record, whose user text is the prefixed text and
  whose \<open>assistant\<close> entry is the labelled reply, not \<open>raw\<close>; the token counter has
  grown by the word counts of the prefixed text and of \<open>raw\<close>, which is at least 1.
\<close>

theorem reviewer_speak_record_and_tokens:
  "role self = role_reviewer \<Longrightarrow> fst (advanced_speak e self text) = Inr reply \<Longrightarrow>
     (\<exists>raw self1.
        speak e self (prefix_reviewer @ text) = (Inr raw, self1) \<and>
        reply = label_reviewer @ raw \<and>
        conversation_history (snd (advanced_speak e self text)) =
          conversation_history self @
            [conversation_record (now e) (prefix_reviewer @ text) (label_reviewer @ raw)
               (model self)] \<and>
        map_of (last (conversation_history (snd (advanced_speak e self text)))) ''assistant'' =
          Some (label_reviewer @ raw) \<and>
        startswith (label_reviewer @ raw) label_reviewer \<and>
        len (snd (advanced_speak e self text)) = len self + 1 \<and>
        token_used (snd (advanced_speak e self text)) =
          token_used self +
            (int (length (split (prefix_reviewer @ text))) + int (length (split raw))) \<and>
        token_used self + 1 \<le> token_used (snd (advanced_speak e self text)))"
proof -
  assume r: "role self = role_reviewer"
    and ok: "fst (advanced_speak e self text) = Inr reply"
  have ne: "role_reviewer \<noteq> role_tutor"
    by (simp add: role_reviewer_def role_tutor_def ascii_def)
  obtain res self1 where sp: "speak e self (prefix_reviewer @ text) = (res, self1)"
    by (cases "speak e self (prefix_reviewer @ text)") auto
  show ?thesis
  proof (cases res)
    case (Inl x)
    then have "fst (advanced_speak e self text) = Inl x"
      using r ne sp by (simp add: advanced_speak_def)
    then show ?thesis using ok by simp
  next
    case (Inr raw)
    then have s: "speak e self (prefix_reviewer @ text) = (Inr raw, self1)"
      using sp by simp
    note u = reviewer_speak_unfold [OF r s]
    have reply: "reply = label_reviewer @ raw" using ok u by simp
    have "\<not> isspace 12304" by (simp add: isspace_def)
    then have "1 \<le> length (split (12304 # [20195, 30721, 23457, 26597, 12305] @ text))"
      by (rule split_nonspace_head)
    then have words: "1 \<le> length (split (prefix_reviewer @ text))"
      by (simp add: prefix_reviewer_def)
    show ?thesis
      apply (rule exI [of _ raw], rule exI [of _ self1])
      using words by (simp add: s reply u len_def startswith_def conversation_record_def)
  qed
qed

lemma example_reviewer_speak:
  "advanced_speak example_env example_reviewer (ascii ''x = 1'') =
     (Inr (label_reviewer @ default_response (ascii ''R'') (prefix_reviewer @ ascii ''x = 1'')),
      example_reviewer
        \<lparr>conversation_history :=
           [conversation_record (now example_env) (prefix_reviewer @ ascii ''x = 1'')
              (label_reviewer @ default_response (ascii ''R'') (prefix_reviewer @ ascii ''x = 1''))
              (ascii ''gpt-4'')],
         token_used := 6\<rparr>)"
  by (simp add: advanced_speak_def speak_def validate_input_def speak_body_def
        example_reviewer_def example_env_def role_reviewer_def role_tutor_def
        prefix_reviewer_def ascii_def strip_def isspace_def rule_response_def
        startswith_def default_response_def name_def Let_def update_token_usage_def
        format_response_by_role_def set_last_assistant_def conversation_record_def
        split_def label_reviewer_def)

theorem reviewer_speak_record_and_tokens_witness:
  "fst (advanced_speak example_env example_reviewer (ascii ''x = 1'')) =
     Inr (label_reviewer @ default_response (ascii ''R'') (prefix_reviewer @ ascii ''x = 1'')) \<and>
   len (snd (advanced_speak example_env example_reviewer (ascii ''x = 1''))) = 1 \<and>
   token_used (snd (advanced_speak example_env example_reviewer (ascii ''x = 1''))) = 6 \<and>
   map_of (last (conversation_history
       (snd (advanced_speak example_env example_reviewer (ascii ''x = 1''))))) ''assistant'' =
     Some (label_reviewer @ default_response (ascii ''R'') (prefix_reviewer @ ascii ''x = 1''))"
proof -
  have r: "role example_reviewer = role_reviewer"
    by (simp add: example_reviewer_def)
  have ok: "fst (advanced_speak example_env example_reviewer (ascii ''x = 1'')) =
      Inr (label_reviewer @ default_response (ascii ''R'') (prefix_reviewer @ ascii ''x = 1''))"
    by (simp add: example_reviewer_speak)
  show ?thesis
    using reviewer_speak_record_and_tokens [OF r ok]
    by (simp add: example_reviewer_speak len_def conversation_record_def)
qed

section \<open>Merging\<close>

text \<open>
  C4. Merging a character \<open>a\<close> with a character \<open>b\<close> (of either class) succeeds and
  gives a character whose history is the records of \<open>a\<close> followed by the records of
  \<open>b\<close>, whose length is the sum of the two lengths, and whose name is the name of
  \<open>a\<close>, then \<open>&\<close>, then the name of \<open>b\<close>. Merging with a value that is not a
  character raises \<open>TypeError\<close>.
\<close>

theorem merge_concatenates:
  "(\<exists>m. AICharacter_add clock a (Character b) = Inr m \<and>
        conversation_history m = conversation_history a @ character_history b \<and>
        len m = len a + length (character_history b) \<and>
        name m = name a @ [38] @ character_name b) \<and>
   (\<not> isinstance_AICharacter v \<longrightarrow>
      AICharacter_add clock a v = Inl (TypeError MergeNonCharacter))"
proof
  have p: "ascii ''merged Character'' \<noteq> []" "length (ascii ''merged Character'') \<le> 1000"
    by (simp_all add: ascii_def)
  show "\<exists>m. AICharacter_add clock a (Character b) = Inr m \<and>
        conversation_history m = conversation_history a @ character_history b \<and>
        len m = len a + length (character_history b) \<and>
        name m = name a @ [38] @ character_name b"
    using p
    by (simp add: AICharacter_add_def AICharacter_init_def system_prompt_setter_def
        len_def name_def)
  show "\<not> isinstance_AICharacter v \<longrightarrow>
      AICharacter_add clock a v = Inl (TypeError MergeNonCharacter)"
    by (cases v) (simp_all add: isinstance_AICharacter_def AICharacter_add_def)
qed

theorem merge_concatenates_witness:
  "(\<exists>m. AICharacter_add [] example_a (Character (Base example_b)) = Inr m \<and>
        conversation_history m = [example_record_1, example_record_2, example_record_1] \<and>
        len m = 3 \<and> name m = ascii ''A&B'') \<and>
   AICharacter_add [] example_a (PyInt 3) = Inl (TypeError MergeNonCharacter) \<and>
   AICharacter_add [] example_a PyNone = Inl (TypeError MergeNonCharacter)"
  using merge_concatenates [of "[]" example_a "Base example_b" "PyInt 3"]
    merge_concatenates [of "[]" example_a "Base example_b" PyNone]
  by (simp add: isinstance_AICharacter_def example_a_def example_b_def
      example_character_def character_history_def character_name_def name_def len_def
      ascii_def AICharacter_add_def AICharacter_init_def system_prompt_setter_def)

subsection \<open>Merging on the store\<close>

lemma lookup_old_append: "r < length h \<Longrightarrow> lookup (h @ xs) r = lookup h r"
  by (simp add: lookup_def nth_append)

lemma lookup_Some_less: "lookup h r = Some x \<Longrightarrow> r < length h"
  by (simp add: lookup_def split: if_splits)

lemma records_at_new_objects:
  "records_at (h @ [HList l0, HCharacter m, HList l1]) rs = records_at h rs"
  by (auto simp: records_at_def lookup_def nth_append nth_Cons split: nat.splits)

lemma history_at_new_objects:
  "r < length h \<Longrightarrow>
     history_at (h @ [HList l0, HCharacter m, HList l1]) r = history_at h r"
  by (simp add: history_at_def lookup_old_append records_at_new_objects
      split: option.splits hobject.splits)

lemma heap_add_result:
  assumes a: "lookup h ra = Some (HCharacter a)"
    and b: "lookup h rb = Some (HCharacter b)"
    and la: "lookup h (h_history a) = Some (HList la)"
    and lb: "lookup h (h_history b) = Some (HList lb)"
  shows "heap_add h clock ra rb =
    (Inr (Suc (length h)),
     h @ [HList [],
          HCharacter \<lparr>h_name = h_name a @ [38] @ h_name b,
            h_system_prompt = ascii ''merged Character'', h_model = DEFAULT_MODEL,
            h_history = Suc (Suc (length h)), h_created_at = clock, h_api_key = None,
            h_rate_limit = 1000, h_advanced = None\<rparr>,
          HList (la @ lb)])"
proof -
  have p: "ascii ''merged Character'' \<noteq> []" "\<not> 1000 < length (ascii ''merged Character'')"
    by (simp_all add: ascii_def)
  let ?m0 = "\<lparr>h_name = h_name a @ [38] @ h_name b,
            h_system_prompt = ascii ''merged Character'', h_model = DEFAULT_MODEL,
            h_history = length h, h_created_at = clock, h_api_key = None,
            h_rate_limit = 1000, h_advanced = None\<rparr>"
  let ?h1 = "h @ [HList [], HCharacter ?m0]"
  have init: "\<And>nm. heap_init h clock nm (ascii ''merged Character'') DEFAULT_MODEL =
      (Inr (Suc (length h)),
       h @ [HList [], HCharacter \<lparr>h_name = nm,
            h_system_prompt = ascii ''merged Character'', h_model = DEFAULT_MODEL,
            h_history = length h, h_created_at = clock, h_api_key = None,
            h_rate_limit = 1000, h_advanced = None\<rparr>])"
    using p by (simp add: heap_init_def alloc_def)
  have la1: "lookup ?h1 (h_history a) = Some (HList la)"
    using la lookup_Some_less [OF la] by (simp add: lookup_old_append)
  have lb1: "lookup ?h1 (h_history b) = Some (HList lb)"
    using lb lookup_Some_less [OF lb] by (simp add: lookup_old_append)
  have m1: "lookup ?h1 (Suc (length h)) = Some (HCharacter ?m0)"
    by (simp add: lookup_def nth_append)
  show ?thesis
    using la1 lb1 m1
    by (simp add: heap_add_def a b init alloc_def store_def list_update_append)
qed

text \<open>
  C9. On a store where \<open>ra\<close> and \<open>rb\<close> are characters whose histories are lists,
  \<open>__add__\<close> succeeds and changes no object of the old store: the old store is the
  initial part of the new one, so both operands, their names, their history lists and every
  record are as before. The merged character is a new object, and its history is a list
  object at an address that was not in use before the call, different from the addresses of
  both operands' histories; it holds the record addresses of \<open>a\<close> followed by those of
  \<open>b\<close>.
\<close>

theorem heap_add_frame:
  assumes a: "lookup h ra = Some (HCharacter a)"
    and b: "lookup h rb = Some (HCharacter b)"
    and la: "lookup h (h_history a) = Some (HList la)"
    and lb: "lookup h (h_history b) = Some (HList lb)"
  shows "\<exists>rm h' m.
    heap_add h clock ra rb = (Inr rm, h') \<and>
    take (length h) h' = h \<and>
    lookup h' ra = Some (HCharacter a) \<and> lookup h' rb = Some (HCharacter b) \<and>
    lookup h' (h_history a) = Some (HList la) \<and>
    lookup h' (h_history b) = Some (HList lb) \<and>
    history_at h' (h_history a) = history_at h (h_history a) \<and>
    history_at h' (h_history b) = history_at h (h_history b) \<and>
    lookup h' rm = Some (HCharacter m) \<and> rm \<noteq> ra \<and> rm \<noteq> rb \<and>
    h_history m \<noteq> h_history a \<and> h_history m \<noteq> h_history b \<and>
    lookup h (h_history m) = None \<and>
    lookup h' (h_history m) = Some (HList (la @ lb)) \<and>
    h_name m = h_name a @ [38] @ h_name b"
proof -
  note r = heap_add_result [OF a b la lb, of clock]
  have ra: "ra < length h" and rb: "rb < length h"
    and ha: "h_history a < length h" and hb: "h_history b < length h"
    using a b la lb by (auto dest: lookup_Some_less)
  let ?m = "\<lparr>h_name = h_name a @ [38] @ h_name b,
            h_system_prompt = ascii ''merged Character'', h_model = DEFAULT_MODEL,
            h_history = Suc (Suc (length h)), h_created_at = clock, h_api_key = None,
            h_rate_limit = 1000, h_advanced = None\<rparr>"
  let ?h' = "h @ [HList [], HCharacter ?m, HList (la @ lb)]"
  show ?thesis
    apply (rule exI [of _ "Suc (length h)"], rule exI [of _ ?h'], rule exI [of _ ?m])
    using ra rb ha hb a b la lb
    apply (simp add: r lookup_old_append history_at_new_objects)
    apply (simp add: lookup_def nth_append)
    done
qed

theorem heap_add_frame_witness:
  "fst (heap_add example_heap [] 2 5) = Inr 7 \<and>
   take 6 (snd (heap_add example_heap [] 2 5)) = example_heap \<and>
   lookup (snd (heap_add example_heap [] 2 5)) 2 = Some (HCharacter example_ha) \<and>
   lookup (snd (heap_add example_heap [] 2 5)) 1 = Some (HList [0]) \<and>
   lookup (snd (heap_add example_heap [] 2 5)) 4 = Some (HList [3]) \<and>
   lookup (snd (heap_add example_heap [] 2 5)) 8 = Some (HList [0, 3])"
proof -
  have a: "lookup example_heap 2 = Some (HCharacter example_ha)"
    by (simp add: lookup_def example_heap_def)
  have b: "lookup example_heap 5 = Some (HCharacter example_hb)"
    by (simp add: lookup_def example_heap_def)
  have la: "lookup example_heap (h_history example_ha) = Some (HList [0])"
    by (simp add: lookup_def example_heap_def example_ha_def)
  have lb: "lookup example_heap (h_history example_hb) = Some (HList [3])"
    by (simp add: lookup_def example_heap_def example_hb_def)
  have len: "length example_heap = 6"
    by (simp add: example_heap_def)
  have r: "heap_add example_heap [] 2 5 =
    (Inr 7, example_heap @ [HList [],
          HCharacter \<lparr>h_name = ascii ''A&B'',
            h_system_prompt = ascii ''merged Character'', h_model = DEFAULT_MODEL,
            h_history = 8, h_created_at = [], h_api_key = None,
            h_rate_limit = 1000, h_advanced = None\<rparr>,
          HList [0, 3]])"
    by (simp add: heap_add_result [OF a b la lb] len example_ha_def example_hb_def ascii_def)
  from heap_add_frame [OF a b la lb, of "[]"] obtain rm h' m where
    e: "heap_add example_heap [] 2 5 = (Inr rm, h')"
    and t: "take (length example_heap) h' = example_heap"
    and oa: "lookup h' 2 = Some (HCharacter example_ha)"
    and ola: "lookup h' (h_history example_ha) = Some (HList [0])"
    and olb: "lookup h' (h_history example_hb) = Some (HList [3])"
    and m: "lookup h' rm = Some (HCharacter m)"
    and nl: "lookup h' (h_history m) = Some (HList ([0] @ [3]))"
    by blast
  from e r have rm: "rm = 7"
    and h': "h' = example_heap @ [HList [],
          HCharacter \<lparr>h_name = ascii ''A&B'',
            h_system_prompt = ascii ''merged Character'', h_model = DEFAULT_MODEL,
            h_history = 8, h_created_at = [], h_api_key = None,
            h_rate_limit = 1000, h_advanced = None\<rparr>,
          HList [0, 3]]"
    by simp_all
  have hm: "h_history m = 8"
    using m by (auto simp: rm h' lookup_def nth_append len)
  show ?thesis
    using t oa ola olb nl
    by (simp add: e rm hm len example_ha_def example_hb_def)
qed

text \<open>
  The store model agrees with the model on values: the merged object of the store stands
  for the character that \<open>AICharacter_add\<close> returns.
\<close>

lemma records_at_append: "records_at h (xs @ ys) = records_at h xs @ records_at h ys"
  by (simp add: records_at_def)

lemma heap_add_refines:
  assumes a: "lookup h ra = Some (HCharacter a)"
    and b: "lookup h rb = Some (HCharacter b)"
    and la: "lookup h (h_history a) = Some (HList la)"
    and lb: "lookup h (h_history b) = Some (HList lb)"
  shows "\<exists>rm h' m.
    heap_add h clock ra rb = (Inr rm, h') \<and> lookup h' rm = Some (HCharacter m) \<and>
    AICharacter_add clock (base_of h a) (Character (Base (base_of h b))) = Inr (base_of h' m)"
proof -
  note r = heap_add_result [OF a b la lb, of clock]
  let ?m = "\<lparr>h_name = h_name a @ [38] @ h_name b,
            h_system_prompt = ascii ''merged Character'', h_model = DEFAULT_MODEL,
            h_history = Suc (Suc (length h)), h_created_at = clock, h_api_key = None,
            h_rate_limit = 1000, h_advanced = None\<rparr>"
  let ?h' = "h @ [HList [], HCharacter ?m, HList (la @ lb)]"
  have p: "ascii ''merged Character'' \<noteq> []" "\<not> 1000 < length (ascii ''merged Character'')"
    by (simp_all add: ascii_def)
  have hm: "history_at (h @ [HList [], HCharacter ?m, HList (la @ lb)]) (Suc (Suc (length h))) =
      records_at h la @ records_at h lb"
    by (simp add: history_at_def lookup_def nth_append records_at_new_objects records_at_append)
  have add: "AICharacter_add clock (base_of h a) (Character (Base (base_of h b))) =
      Inr (base_of ?h' ?m)"
    using p hm
    by (simp add: AICharacter_add_def AICharacter_init_def system_prompt_setter_def
        base_of_def name_def character_name_def character_history_def history_at_def la lb)
  show ?thesis
    apply (rule exI [of _ "Suc (length h)"], rule exI [of _ ?h'], rule exI [of _ ?m])
    using add
    apply (simp add: r)
    apply (simp add: lookup_def nth_append)
    done
qed

section \<open>The analyzer and the batch processor as written\<close>

text \<open>
  The module of the analyzer and the batch processor imports the name
  \<open>AdvancedAICharacterq\<close> from the character module, which defines no such name, so the
  import raises before any of its functions exists. The functions are modelled as their
  bodies are written.
\<close>

lemma record_has_no_users_key: "map_of (conversation_record ts u a m) ''users'' = None"
  by (simp add: conversation_record_def)

lemma total_user_words_zero:
  "\<forall>conv \<in> set h. map_of conv ''users'' = None \<Longrightarrow> total_user_words h = 0"
  by (induction h) (simp_all add: total_user_words_def dict_get_def split_def)

text \<open>
  C5. \<open>get_conversation_stats\<close> counts the user's words under the key \<open>users\<close>,
  which no record has (\<open>speak\<close> writes the key \<open>user\<close>). For a history of one record
  whose user text has two words and whose reply has three, whatever the calendar, the
  average of the user's words is 0 and the average of the reply's words is 3.
\<close>

theorem stats_user_average_zero:
  "length (split (dict_get example_record_1 ''user'' [])) = 2 \<and>
   (\<exists>st. get_conversation_stats date_of today example_a = Stats st \<and>
      total_conversation st = 1 \<and> avg_user_words st = 0 \<and> avg_assistant_words st = 3)"
  by (simp add: get_conversation_stats_def example_a_def example_record_1_def
      conversation_record_def total_user_words_def total_assistant_words_def dict_get_def
      py_round2_def round_half_even_def Let_def split_def ascii_def isspace_def)

text \<open>
  C6. \<open>batch_converse\<close> with the empty message on the single base character: its
  \<open>speak\<close> raises, the handler reads the unbound \<open>response\<close>, and the function ends
  with \<open>UnboundLocalError\<close> instead of returning a result for the character. With a
  reviewer before the base character (the reviewer's prefixed text passes validation), the
  base character's failure is recorded with the reviewer's reply. Both hold in every
  environment.
\<close>

theorem batch_converse_first_failure_aborts:
  "batch_converse es [Base example_character] [] =
     (Inl (UnboundLocalError ''response''), [Base example_character]) \<and>
   fst (batch_converse es [Advanced example_reviewer, Base example_character] []) =
     Inr [(ascii ''R'',
            (label_reviewer @ default_response (ascii ''R'') prefix_reviewer, True)),
          (ascii ''A'',
            (label_reviewer @ default_response (ascii ''R'') prefix_reviewer, False))]"
  by (simp add: batch_converse_def character_speak_def advanced_speak_def speak_def
      validate_input_def speak_body_def example_reviewer_def example_env_def
      example_character_def role_reviewer_def role_tutor_def prefix_reviewer_def ascii_def
      strip_def isspace_def rule_response_def startswith_def default_response_def name_def
      Let_def update_token_usage_def format_response_by_role_def set_last_assistant_def
      conversation_record_def split_def label_reviewer_def character_name_def)

lemma export_nonempty_raises:
  "conversation_history ch \<noteq> [] \<Longrightarrow>
     export_conversations f ch sd ed = Inl (TypeError DictNotCallable)"
  by (cases "conversation_history ch") (simp_all add: export_conversations_def dict_call_def)

text \<open>
  C7. \<open>export_conversations\<close> on a history of one record, with no bounds: the first
  statement of the loop calls the record dict, and the function raises \<open>TypeError\<close>
  instead of returning the record.
\<close>

theorem export_conversations_raises:
  "export_conversations f example_a None None = Inl (TypeError DictNotCallable)"
  by (simp add: export_nonempty_raises example_a_def)

end
